theory Spec2Isabelle
  imports Main "HOL-Library.Sublist"
begin

section \<open>The rule evaluation engine of ScanManager\<close>

text \<open>
  A shallow embedding of \<^verbatim>\<open>src/core/ScanManager.ts\<close> (class \<^verbatim>\<open>ScanManager\<close>: \<^verbatim>\<open>dump\<close>,
  \<^verbatim>\<open>measure\<close>, \<^verbatim>\<open>scan\<close>, \<^verbatim>\<open>commonScan\<close>) and of the pieces of the older
  \<^verbatim>\<open>src/core/ScanManager.js\<close> that the specification refers to (\<^verbatim>\<open>DumpResult\<close> and the
  query composition of \<^verbatim>\<open>_scan\<close>).

  Strings are lists of characters. A thrown value is kept as the text that a template
  literal renders it to. Syntax nodes are owned by tree-sitter; the engine reads only
  their \<^verbatim>\<open>text\<close> (the field \<open>text'\<close> below), \<^verbatim>\<open>startIndex\<close> and \<^verbatim>\<open>endIndex\<close>.

  The types \<^verbatim>\<open>ScanRule\<close>, \<^verbatim>\<open>ScanResult\<close> and \<^verbatim>\<open>ResultType\<close> come from the package
  \<^verbatim>\<open>sourceloupe-types\<close>, which is not part of the sources. A \<^verbatim>\<open>ScanResult\<close> is a value of
  the type parameter \<open>'res\<close>; \<^verbatim>\<open>ResultType.VIOLATION\<close> is the parameter \<open>VIOLATION\<close> of
  every function that needs it; priorities are integers; a context is a string such as
  \<^verbatim>\<open>scan,measure\<close>, as in the rule registry of \<^verbatim>\<open>ScanManager.js\<close>. The operation
  \<^verbatim>\<open>measure\<close> is called \<open>measure_op\<close>.
\<close>

subsection \<open>Data\<close>

type_synonym exn = string

record SyntaxNode =
  startIndex :: nat
  endIndex :: nat
  text' :: string

record QueryCapture =
  name :: string
  node :: SyntaxNode

record Tree =
  rootNode :: SyntaxNode

text \<open>
  The data fields of a \<^verbatim>\<open>ScanRule\<close> that \<^verbatim>\<open>commonScan\<close> reads or writes. The methods of
  a rule are called with the rule as receiver, so they are functions of these fields
  (as they are at the moment of the call) and of their argument. A method either
  returns or throws; it has no other effect on the engine.
\<close>

record ScanRuleFields =
  Context :: "string option"
  Query :: string
  RegEx :: "string option"
  Priority :: int

record 'res ScanRule = ScanRuleFields +
  preFilterOverride :: "(ScanRuleFields \<Rightarrow> SyntaxNode \<Rightarrow> exn + SyntaxNode) option"
  measureNodes :: "ScanRuleFields \<Rightarrow> SyntaxNode list \<Rightarrow> exn option"
  validateNodes :: "ScanRuleFields \<Rightarrow> SyntaxNode list \<Rightarrow> exn + 'res list"
  validateNode :: "ScanRuleFields \<Rightarrow> SyntaxNode \<Rightarrow> exn + 'res list"

text \<open>
  \<^verbatim>\<open>treeSitterLanguage\<close> stands for the language as the engine uses it:
  \<^verbatim>\<open>new TreeSitter.Query(language, queryText).captures(node)\<close>, which throws on a query
  that does not compile and otherwise returns the captures in the engine's order. The
  parser is used by the constructor alone and is left out.
\<close>

record 'res ScanManager =
  treeSitterNodeTree :: Tree
  treeSitterLanguage :: "string \<Rightarrow> SyntaxNode \<Rightarrow> exn + QueryCapture list"
  scannerRules :: "'res ScanRule list"
  sourceCodeToScan :: string

text \<open>What a run does besides building its result list.\<close>

datatype event =
  MeasureNodes ScanRuleFields "SyntaxNode list"
  | ConsoleError string

record 'res run =
  scanResultList :: "'res list"
  effects :: "event list"

subsection \<open>Helpers of the platform\<close>

text \<open>\<^verbatim>\<open>String.prototype.includes\<close>: the argument occurs as a contiguous piece.\<close>

fun includes' :: "string \<Rightarrow> string \<Rightarrow> bool" where
  "includes' [] t = (t = [])"
| "includes' (c # cs) t = (prefix t (c # cs) \<or> includes' cs t)"

text \<open>
  Modelled from the spec: the base class \<^verbatim>\<open>ScanRule\<close> of the package
  \<^verbatim>\<open>sourceloupe-types\<close> is not part of the sources; a rule that supplies no pre-filter
  inherits the identity.
\<close>

definition preFilter :: "'res ScanRule \<Rightarrow> SyntaxNode \<Rightarrow> exn + SyntaxNode" where
  "preFilter rule rawRoot =
     (case preFilterOverride rule of
        None \<Rightarrow> Inr rawRoot
      | Some f \<Rightarrow> f (ScanRuleFields.truncate rule) rawRoot)"

subsection \<open>commonScan\<close>

text \<open>Line 85: the priority is overwritten in the rule object.\<close>

definition normalizePriority :: "int \<Rightarrow> 'res ScanRule \<Rightarrow> 'res ScanRule" where
  "normalizePriority VIOLATION rule =
     rule\<lparr>Priority := (if Priority rule > VIOLATION then VIOLATION else Priority rule)\<rparr>"

text \<open>Line 86: an absent or empty \<^verbatim>\<open>RegEx\<close> is falsy.\<close>

definition queryText :: "'res ScanRule \<Rightarrow> string" where
  \<open>queryText rule =
     Query rule @
       (case RegEx rule of
          None \<Rightarrow> []
        | Some re \<Rightarrow> if re \<noteq> [] then ''(#match? @exp "'' @ re @ ''")'' else [])\<close>

text \<open>Lines 108 to 110: the loop stops at the first node whose validator throws.\<close>

fun forEach_validateNode ::
  "(SyntaxNode \<Rightarrow> exn + 'res list) \<Rightarrow> SyntaxNode list \<Rightarrow> 'res run \<Rightarrow> exn option \<times> 'res run" where
  "forEach_validateNode f [] s = (None, s)"
| "forEach_validateNode f (n # ns) s =
     (case f n of
        Inl e \<Rightarrow> (Some e, s)
      | Inr rs \<Rightarrow> forEach_validateNode f ns (s\<lparr>scanResultList := scanResultList s @ rs\<rparr>))"

text \<open>Line 100: the context of a rule, scan when it has none.\<close>

definition effectiveContext :: "'res ScanRule \<Rightarrow> string" where
  "effectiveContext rule = (case Context rule of None \<Rightarrow> ''scan'' | Some c \<Rightarrow> c)"

text \<open>
  Lines 99 to 110, what the try block does with the captured nodes; the first component
  is what it threw, if anything. A call of \<^verbatim>\<open>measureNodes\<close> is recorded before its
  outcome is known.
\<close>

definition dispatchNodes ::
  "'res ScanRule \<Rightarrow> SyntaxNode list \<Rightarrow> 'res run \<Rightarrow> exn option \<times> 'res run" where
  "dispatchNodes rule capturedNodes s =
     (let this = ScanRuleFields.truncate rule;
          ruleContext = effectiveContext rule;
          measured =
            (if includes' ruleContext ''measure''
             then (measureNodes rule this capturedNodes,
                   s\<lparr>effects := effects s @ [MeasureNodes this capturedNodes]\<rparr>)
             else (None, s))
      in case fst measured of
           Some e \<Rightarrow> (Some e, snd measured)
         | None \<Rightarrow>
             (case validateNodes rule this capturedNodes of
                Inl e \<Rightarrow> (Some e, snd measured)
              | Inr rs \<Rightarrow>
                  forEach_validateNode (validateNode rule this) capturedNodes
                    ((snd measured)\<lparr>scanResultList := scanResultList (snd measured) @ rs\<rparr>)))"

text \<open>Lines 89 to 110, the body of the try block.\<close>

definition tryBlock ::
  "'res ScanManager \<Rightarrow> 'res ScanRule \<Rightarrow> 'res run \<Rightarrow> exn option \<times> 'res run" where
  "tryBlock m rule s =
     (case preFilter rule (rootNode (treeSitterNodeTree m)) of
        Inl e \<Rightarrow> (Some e, s)
      | Inr filteredRoot \<Rightarrow>
          (case treeSitterLanguage m (queryText rule) filteredRoot of
             Inl e \<Rightarrow> (Some e, s)
           | Inr captures \<Rightarrow> dispatchNodes rule (map node captures) s))"

text \<open>Lines 82 to 114, one turn of the loop: the rule as it is left, and the run.\<close>

definition evalRule ::
  "int \<Rightarrow> 'res ScanManager \<Rightarrow> 'res ScanRule \<Rightarrow> 'res run \<Rightarrow> 'res ScanRule \<times> 'res run" where
  "evalRule VIOLATION m rule0 s =
     (let rule = normalizePriority VIOLATION rule0;
          r = tryBlock m rule s
      in (rule,
          case fst r of
            None \<Rightarrow> snd r
          | Some treeSitterError \<Rightarrow>
              (snd r)\<lparr>effects := effects (snd r) @
                 [ConsoleError (''A tree-sitter query error occurred: '' @ treeSitterError)]\<rparr>))"

fun forOf ::
  "int \<Rightarrow> 'res ScanManager \<Rightarrow> 'res ScanRule list \<Rightarrow> 'res run \<Rightarrow> 'res ScanRule list \<times> 'res run" where
  "forOf VIOLATION m [] s = ([], s)"
| "forOf VIOLATION m (rule # rules) s =
     (let a = evalRule VIOLATION m rule s;
          b = forOf VIOLATION m rules (snd a)
      in (fst a # fst b, snd b))"

text \<open>
  The result of a public operation: the list handed to the caller, the engine as the
  call leaves it, and what the call did on the side.
\<close>

record 'res outcome =
  returned :: "'res list"
  engine :: "'res ScanManager"
  sideEffects :: "event list"

definition commonScan :: "int \<Rightarrow> 'res ScanManager \<Rightarrow> 'res outcome" where
  "commonScan VIOLATION m =
     (let r = forOf VIOLATION m (scannerRules m) \<lparr>scanResultList = [], effects = []\<rparr>
      in \<lparr>returned = scanResultList (snd r),
          engine = m\<lparr>scannerRules := fst r\<rparr>,
          sideEffects = effects (snd r)\<rparr>)"

definition measure_op :: "int \<Rightarrow> 'res ScanManager \<Rightarrow> 'res outcome" where
  "measure_op VIOLATION m = commonScan VIOLATION m"

definition scan :: "int \<Rightarrow> 'res ScanManager \<Rightarrow> 'res outcome" where
  "scan VIOLATION m = commonScan VIOLATION m"

subsection \<open>dump\<close>

text \<open>
  \<^verbatim>\<open>JSON.stringify\<close> on the values that occur here: strings, non-negative integers,
  arrays and objects with their own properties in insertion order. A string is quoted
  as ECMAScript's QuoteJSONString does.
\<close>

datatype JSON =
  JString string
  | JNumber nat
  | JArray "JSON list"
  | JObject "(string \<times> JSON) list"

fun decimal :: "nat \<Rightarrow> string" where
  "decimal n =
     (if n < 10 then [''0123456789'' ! n]
      else decimal (n div 10) @ [''0123456789'' ! (n mod 10)])"

declare decimal.simps [simp del]

definition quoteJSONChar :: "char \<Rightarrow> string" where
  "quoteJSONChar c =
     (if c = CHR 0x22 then [CHR 0x5C, CHR 0x22]
      else if c = CHR 0x5C then [CHR 0x5C, CHR 0x5C]
      else if c = CHR 0x08 then [CHR 0x5C, CHR ''b'']
      else if c = CHR 0x0C then [CHR 0x5C, CHR ''f'']
      else if c = CHR 0x0A then [CHR 0x5C, CHR ''n'']
      else if c = CHR 0x0D then [CHR 0x5C, CHR ''r'']
      else if c = CHR 0x09 then [CHR 0x5C, CHR ''t'']
      else if (of_char c :: nat) < 32
        then [CHR 0x5C, CHR ''u'', CHR ''0'', CHR ''0'',
              ''0123456789abcdef'' ! (of_char c div 16),
              ''0123456789abcdef'' ! (of_char c mod 16)]
      else [c])"

definition QuoteJSONString :: "string \<Rightarrow> string" where
  "QuoteJSONString s = [CHR 0x22] @ concat (map quoteJSONChar s) @ [CHR 0x22]"

fun join :: "string \<Rightarrow> string list \<Rightarrow> string" where
  "join sep [] = []"
| "join sep [x] = x"
| "join sep (x # y # ys) = x @ sep @ join sep (y # ys)"

fun JSON_stringify :: "JSON \<Rightarrow> string" where
  "JSON_stringify (JString s) = QuoteJSONString s"
| "JSON_stringify (JNumber n) = decimal n"
| "JSON_stringify (JArray xs) = ''['' @ join '','' (map JSON_stringify xs) @ '']''"
| "JSON_stringify (JObject kvs) =
     ''{'' @ join '','' (map (\<lambda>kv. QuoteJSONString (fst kv) @ '':'' @ JSON_stringify (snd kv)) kvs)
       @ ''}''"

text \<open>Lines 40 to 42 of \<^verbatim>\<open>ScanManager.ts\<close>: the query that \<^verbatim>\<open>dump\<close> executes.\<close>

definition executedQuery :: "string \<Rightarrow> string" where
  "executedQuery queryString =
     (if queryString = [] then ''(class_declaration @decl)'' else queryString)"

text \<open>
  Lines 37 to 49 of \<^verbatim>\<open>ScanManager.ts\<close>. There is no try block here: an error of the
  query is the outcome of the call.
\<close>

definition dump :: "'res ScanManager \<Rightarrow> string \<Rightarrow> exn + string" where
  "dump m queryString =
     (case treeSitterLanguage m (executedQuery queryString) (rootNode (treeSitterNodeTree m)) of
        Inl e \<Rightarrow> Inl e
      | Inr globalCaptures \<Rightarrow>
          Inr (JSON_stringify (JArray (map JString
            (foldl (\<lambda>result capture. result @ [''@'' @ name capture @ ''='' @ text' (node capture)])
               [] globalCaptures)))))"

subsection \<open>The older ScanManager.js\<close>

text \<open>
  \<^verbatim>\<open>String.prototype.substring\<close> on indices that are natural numbers: both are clamped to the
  length and swapped when out of order.
\<close>

definition substring :: "string \<Rightarrow> nat \<Rightarrow> nat \<Rightarrow> string" where
  "substring s start end' =
     (let finalStart = min start (length s);
          finalEnd = min end' (length s);
          from = min finalStart finalEnd;
          to = max finalStart finalEnd
      in take (to - from) (drop from s))"

text \<open>Lines 100 to 106 of \<^verbatim>\<open>ScanManager.js\<close>.\<close>

record DumpResult =
  SourceFragment :: string
  StartIndex :: nat
  EndIndex :: nat

definition new_DumpResult :: "SyntaxNode \<Rightarrow> string \<Rightarrow> DumpResult" where
  "new_DumpResult n source =
     \<lparr>SourceFragment = substring source (startIndex n) (endIndex n),
      StartIndex = startIndex n,
      EndIndex = endIndex n\<rparr>"


text \<open>Lines 63 to 71 of \<^verbatim>\<open>ScanManager.js\<close>: here only null and undefined count as absent.\<close>

definition queryText_js :: "'res ScanRule \<Rightarrow> string" where
  \<open>queryText_js rule =
     (let queryText = Query rule
      in if RegEx rule \<noteq> None
         then queryText @
                (case RegEx rule of None \<Rightarrow> [] | Some re \<Rightarrow> ''(#match? @exp "'' @ re @ ''")'')
         else queryText)\<close>

section \<open>What one rule adds to a run\<close>

text \<open>
  The findings and the side effects of one turn of the loop, observed on a run that
  starts empty, and the per-node loop as a function of the nodes alone.
\<close>

definition emptyRun :: "'res run" where
  "emptyRun = \<lparr>scanResultList = [], effects = []\<rparr>"

definition ruleFindings :: "int \<Rightarrow> 'res ScanManager \<Rightarrow> 'res ScanRule \<Rightarrow> 'res list" where
  "ruleFindings VIOLATION m rule = scanResultList (snd (evalRule VIOLATION m rule emptyRun))"

definition ruleEffects :: "int \<Rightarrow> 'res ScanManager \<Rightarrow> 'res ScanRule \<Rightarrow> event list" where
  "ruleEffects VIOLATION m rule = effects (snd (evalRule VIOLATION m rule emptyRun))"

fun validated :: "(SyntaxNode \<Rightarrow> exn + 'res list) \<Rightarrow> SyntaxNode list \<Rightarrow> exn option \<times> 'res list" where
  "validated f [] = (None, [])"
| "validated f (n # ns) =
     (case f n of
        Inl e \<Rightarrow> (Some e, [])
      | Inr rs \<Rightarrow> (fst (validated f ns), rs @ snd (validated f ns)))"

text \<open>
  Lines 89 to 97 for one rule of the loop: the captured nodes, or what the pre-filter or
  the query threw. \<open>queryError\<close> is the error of compiling or executing the query alone.
\<close>

definition captured :: "int \<Rightarrow> 'res ScanManager \<Rightarrow> 'res ScanRule \<Rightarrow> exn + SyntaxNode list" where
  "captured VIOLATION m rule0 =
     (let rule = normalizePriority VIOLATION rule0
      in case preFilter rule (rootNode (treeSitterNodeTree m)) of
           Inl e \<Rightarrow> Inl e
         | Inr filteredRoot \<Rightarrow>
             (case treeSitterLanguage m (queryText rule) filteredRoot of
                Inl e \<Rightarrow> Inl e
              | Inr captures \<Rightarrow> Inr (map node captures)))"

definition queryError :: "int \<Rightarrow> 'res ScanManager \<Rightarrow> 'res ScanRule \<Rightarrow> exn option" where
  "queryError VIOLATION m rule0 =
     (let rule = normalizePriority VIOLATION rule0
      in case preFilter rule (rootNode (treeSitterNodeTree m)) of
           Inl e \<Rightarrow> None
         | Inr filteredRoot \<Rightarrow>
             (case treeSitterLanguage m (queryText rule) filteredRoot of
                Inl e \<Rightarrow> Some e
              | Inr captures \<Rightarrow> None))"

text \<open>
  What one rule has appended to the result list when its try block ends. Nothing, when
  the pre-filter, the query, \<^verbatim>\<open>measureNodes\<close> or \<^verbatim>\<open>validateNodes\<close> throws. Otherwise the
  results of \<^verbatim>\<open>validateNodes\<close>, followed by the results of \<^verbatim>\<open>validateNode\<close> for the nodes
  in capture order, up to the first node on which \<^verbatim>\<open>validateNode\<close> throws.
\<close>

definition returns :: "exn + 'a \<Rightarrow> bool" where
  "returns r = (case r of Inl e \<Rightarrow> False | Inr v \<Rightarrow> True)"

definition results :: "exn + 'res list \<Rightarrow> 'res list" where
  "results r = (case r of Inl e \<Rightarrow> [] | Inr rs \<Rightarrow> rs)"

definition appendedBy :: "int \<Rightarrow> 'res ScanManager \<Rightarrow> 'res ScanRule \<Rightarrow> 'res list" where
  "appendedBy VIOLATION m rule0 =
     (let rule = normalizePriority VIOLATION rule0;
          this = ScanRuleFields.truncate rule
      in case captured VIOLATION m rule0 of
           Inl e \<Rightarrow> []
         | Inr nodes \<Rightarrow>
             if includes' (effectiveContext rule) ''measure''
                \<and> measureNodes rule this nodes \<noteq> None
             then []
             else (case validateNodes rule this nodes of
                     Inl e \<Rightarrow> []
                   | Inr rs \<Rightarrow>
                       rs @ concat (map (\<lambda>n. results (validateNode rule this n))
                              (takeWhile (\<lambda>n. returns (validateNode rule this n)) nodes))))"

text \<open>
  The calls of \<^verbatim>\<open>measureNodes\<close> among the side effects, and the call that one rule
  makes: one when its nodes were captured and its context includes measure.
\<close>

fun isMeasureNodes :: "event \<Rightarrow> bool" where
  "isMeasureNodes (MeasureNodes this nodes) = True"
| "isMeasureNodes (ConsoleError text) = False"

definition measureCall :: "int \<Rightarrow> 'res ScanManager \<Rightarrow> 'res ScanRule \<Rightarrow> event list" where
  "measureCall VIOLATION m rule0 =
     (case captured VIOLATION m rule0 of
        Inl e \<Rightarrow> []
      | Inr nodes \<Rightarrow>
          if includes' (effectiveContext rule0) ''measure''
          then [MeasureNodes (ScanRuleFields.truncate (normalizePriority VIOLATION rule0)) nodes]
          else [])"

section \<open>The specification's wording\<close>

text \<open>
  A rule is successful when its try block runs to its end: the nodes were captured,
  \<^verbatim>\<open>measureNodes\<close>, if it was called, returned, and so did \<^verbatim>\<open>validateNodes\<close> and
  \<^verbatim>\<open>validateNode\<close> on every node. The contribution of a successful rule is what
  \<^verbatim>\<open>validateNodes\<close> returned, followed by what \<^verbatim>\<open>validateNode\<close> returned for each node in
  capture order; any other rule contributes nothing.
\<close>

definition successful :: "int \<Rightarrow> 'res ScanManager \<Rightarrow> 'res ScanRule \<Rightarrow> SyntaxNode list option" where
  "successful VIOLATION m rule0 =
     (let rule = normalizePriority VIOLATION rule0;
          this = ScanRuleFields.truncate rule
      in case captured VIOLATION m rule0 of
           Inl e \<Rightarrow> None
         | Inr nodes \<Rightarrow>
             if includes' (effectiveContext rule) ''measure''
                \<and> measureNodes rule this nodes \<noteq> None
             then None
             else if returns (validateNodes rule this nodes)
                     \<and> list_all (\<lambda>n. returns (validateNode rule this n)) nodes
             then Some nodes
             else None)"

definition contribution :: "int \<Rightarrow> 'res ScanManager \<Rightarrow> 'res ScanRule \<Rightarrow> 'res list" where
  "contribution VIOLATION m rule0 =
     (let rule = normalizePriority VIOLATION rule0;
          this = ScanRuleFields.truncate rule
      in case successful VIOLATION m rule0 of
           None \<Rightarrow> []
         | Some nodes \<Rightarrow>
             results (validateNodes rule this nodes)
               @ concat (map (\<lambda>n. results (validateNode rule this n)) nodes))"


text \<open>
  The composed query of the specification: the match constraint is appended whenever a
  regular expression is present.
\<close>

definition composedQuery_spec :: "'res ScanRule \<Rightarrow> string" where
  \<open>composedQuery_spec rule =
     (case RegEx rule of
        None \<Rightarrow> Query rule
      | Some re \<Rightarrow> Query rule @ ''(#match? @exp "'' @ re @ ''")'')\<close>

section \<open>An example engine\<close>

text \<open>
  The source \<^verbatim>\<open>class A { int x; int longName; }\<close> with its class declaration and its
  two identifiers, and a language that stands for tree-sitter on the four query texts
  used below: it answers the identifier query and \<^verbatim>\<open>(class_declaration) @decl\<close>, and
  rejects the unbalanced \<^verbatim>\<open>(variable_declarator\<close> and the text
  \<^verbatim>\<open>(class_declaration @decl)\<close> with a syntax error, as it does every other text. The
  rules: one with a query that does not compile and a priority of 16452, one that flags
  short names, one for measurement that narrows the scope to the second declaration,
  one whose regular expression is the empty string, and one whose \<^verbatim>\<open>validateNode\<close>
  throws on the second identifier.
\<close>

definition demoSource :: string where
  "demoSource = ''class A { int x; int longName; }''"

definition demoRoot :: SyntaxNode where
  "demoRoot = \<lparr>startIndex = 0, endIndex = 32, text' = ''class A { int x; int longName; }''\<rparr>"

definition demoClass :: SyntaxNode where
  "demoClass = \<lparr>startIndex = 0, endIndex = 32, text' = ''class A { int x; int longName; }''\<rparr>"

definition demoTail :: SyntaxNode where
  "demoTail = \<lparr>startIndex = 17, endIndex = 30, text' = ''int longName;''\<rparr>"

definition nodeX :: SyntaxNode where
  "nodeX = \<lparr>startIndex = 14, endIndex = 15, text' = ''x''\<rparr>"

definition nodeLongName :: SyntaxNode where
  "nodeLongName = \<lparr>startIndex = 21, endIndex = 29, text' = ''longName''\<rparr>"

definition demoLanguage :: "string \<Rightarrow> SyntaxNode \<Rightarrow> exn + QueryCapture list" where
  "demoLanguage q scope =
     (if q = ''(variable_declarator (identifier) @exp)''
      then Inr (map (\<lambda>n. \<lparr>name = ''exp'', node = n\<rparr>)
             (filter (\<lambda>n. startIndex scope \<le> startIndex n \<and> endIndex n \<le> endIndex scope)
                [nodeX, nodeLongName]))
      else if q = ''(class_declaration) @decl''
      then Inr [\<lparr>name = ''decl'', node = demoClass\<rparr>]
      else if q = ''(class_declaration @decl)''
      then Inl ''Error: Query error of type TSQueryErrorSyntax at position 19''
      else Inl ''Error: Query error of type TSQueryErrorSyntax at position 20'')"

definition lengthRule :: "string ScanRule" where
  "lengthRule =
     \<lparr>Context = None, Query = ''(variable_declarator (identifier) @exp)'', RegEx = None,
      Priority = 2, preFilterOverride = None,
      measureNodes = (\<lambda>this ns. None),
      validateNodes = (\<lambda>this ns. Inr [''total'']),
      validateNode = (\<lambda>this n. Inr (if length (text' n) \<le> 3 then [text' n] else []))\<rparr>"

definition brokenRule :: "string ScanRule" where
  "brokenRule =
     \<lparr>Context = Some ''scan,measure'', Query = ''(variable_declarator'', RegEx = None,
      Priority = 16452, preFilterOverride = None,
      measureNodes = (\<lambda>this ns. None),
      validateNodes = (\<lambda>this ns. Inr [''never'']),
      validateNode = (\<lambda>this n. Inr [''never''])\<rparr>"

definition measureRule :: "string ScanRule" where
  "measureRule =
     \<lparr>Context = Some ''measure'', Query = ''(variable_declarator (identifier) @exp)'',
      RegEx = None, Priority = 1, preFilterOverride = Some (\<lambda>this root. Inr demoTail),
      measureNodes = (\<lambda>this ns. None),
      validateNodes = (\<lambda>this ns. Inr []),
      validateNode = (\<lambda>this n. Inr [text' n])\<rparr>"

definition emptyRegExRule :: "string ScanRule" where
  "emptyRegExRule =
     \<lparr>Context = None, Query = ''(variable_declarator (identifier) @exp)'', RegEx = Some [],
      Priority = 2, preFilterOverride = None,
      measureNodes = (\<lambda>this ns. None),
      validateNodes = (\<lambda>this ns. Inr []),
      validateNode = (\<lambda>this n. Inr [])\<rparr>"

definition throwingRule :: "string ScanRule" where
  "throwingRule =
     \<lparr>Context = None, Query = ''(variable_declarator (identifier) @exp)'', RegEx = None,
      Priority = 2, preFilterOverride = None,
      measureNodes = (\<lambda>this ns. None),
      validateNodes = (\<lambda>this ns. Inr [''total'']),
      validateNode = (\<lambda>this n. if text' n = ''longName''
                                 then Inl ''TypeError: no rule for this node''
                                 else Inr [text' n])\<rparr>"

definition demoManager :: "string ScanManager" where
  "demoManager =
     \<lparr>treeSitterNodeTree = \<lparr>rootNode = demoRoot\<rparr>,
      treeSitterLanguage = demoLanguage,
      scannerRules = [brokenRule, lengthRule, measureRule],
      sourceCodeToScan = demoSource\<rparr>"

definition brokenManager :: "string ScanManager" where
  "brokenManager =
     \<lparr>treeSitterNodeTree = \<lparr>rootNode = demoRoot\<rparr>,
      treeSitterLanguage = demoLanguage,
      scannerRules = [brokenRule, brokenRule],
      sourceCodeToScan = demoSource\<rparr>"

definition throwingManager :: "string ScanManager" where
  "throwingManager =
     \<lparr>treeSitterNodeTree = \<lparr>rootNode = demoRoot\<rparr>,
      treeSitterLanguage = demoLanguage,
      scannerRules = [throwingRule, lengthRule],
      sourceCodeToScan = demoSource\<rparr>"

lemmas demo_defs = demoManager_def brokenManager_def throwingManager_def demoLanguage_def
  demoRoot_def demoClass_def demoTail_def nodeX_def nodeLongName_def lengthRule_def brokenRule_def
  measureRule_def emptyRegExRule_def throwingRule_def demoSource_def

lemmas engine_defs = scan_def measure_op_def commonScan_def evalRule_def tryBlock_def
  dispatchNodes_def normalizePriority_def queryText_def preFilter_def effectiveContext_def
  ScanRuleFields.truncate_def Let_def

section \<open>The loop as a concatenation\<close>

lemma emptyRun_simps [simp]:
  "scanResultList emptyRun = []" "effects emptyRun = []"
  by (simp_all add: emptyRun_def)

lemma forEach_validateNode_validated:
  "forEach_validateNode f ns s =
     (fst (validated f ns), s\<lparr>scanResultList := scanResultList s @ snd (validated f ns)\<rparr>)"
  by (induction ns arbitrary: s) (simp_all split: sum.split)

lemma dispatchNodes_frame:
  "dispatchNodes rule ns s =
     (fst (dispatchNodes rule ns emptyRun),
      s\<lparr>scanResultList := scanResultList s @ scanResultList (snd (dispatchNodes rule ns emptyRun)),
        effects := effects s @ effects (snd (dispatchNodes rule ns emptyRun))\<rparr>)"
  by (simp add: dispatchNodes_def emptyRun_def Let_def forEach_validateNode_validated
      split: option.split sum.split)

lemma tryBlock_frame:
  "tryBlock m rule s =
     (fst (tryBlock m rule emptyRun),
      s\<lparr>scanResultList := scanResultList s @ scanResultList (snd (tryBlock m rule emptyRun)),
        effects := effects s @ effects (snd (tryBlock m rule emptyRun))\<rparr>)"
proof (cases "preFilter rule (rootNode (treeSitterNodeTree m))")
  case (Inl e)
  then show ?thesis by (simp add: tryBlock_def emptyRun_def)
next
  case (Inr filteredRoot)
  show ?thesis
  proof (cases "treeSitterLanguage m (queryText rule) filteredRoot")
    case (Inl e)
    with Inr show ?thesis by (simp add: tryBlock_def emptyRun_def)
  next
    case inner: (Inr captures)
    have "tryBlock m rule t = dispatchNodes rule (map node captures) t" for t
      using Inr inner by (simp add: tryBlock_def)
    then show ?thesis using dispatchNodes_frame[of rule "map node captures" s] by simp
  qed
qed

lemma evalRule_frame:
  "evalRule V m rule s =
     (normalizePriority V rule,
      s\<lparr>scanResultList := scanResultList s @ ruleFindings V m rule,
        effects := effects s @ ruleEffects V m rule\<rparr>)"
  using tryBlock_frame[of m "normalizePriority V rule" s]
  by (simp add: evalRule_def ruleFindings_def ruleEffects_def Let_def  split: option.split)

lemma forOf_frame:
  "forOf V m rules s =
     (map (normalizePriority V) rules,
      s\<lparr>scanResultList := scanResultList s @ concat (map (ruleFindings V m) rules),
        effects := effects s @ concat (map (ruleEffects V m) rules)\<rparr>)"
  by (induction rules arbitrary: s) (simp_all add: Let_def evalRule_frame)

lemma commonScan_eq:
  "commonScan V m =
     \<lparr>returned = concat (map (ruleFindings V m) (scannerRules m)),
      engine = m\<lparr>scannerRules := map (normalizePriority V) (scannerRules m)\<rparr>,
      sideEffects = concat (map (ruleEffects V m) (scannerRules m))\<rparr>"
  by (simp add: commonScan_def forOf_frame Let_def)

lemma evalRule_rules_irrelevant [simp]:
  "evalRule V (m\<lparr>scannerRules := rules\<rparr>) rule s = evalRule V m rule s"
  by (simp add: evalRule_def tryBlock_def cong: sum.case_cong)

lemma ruleFindings_rules_irrelevant [simp]:
  "ruleFindings V (m\<lparr>scannerRules := rules\<rparr>) = ruleFindings V m"
  by (rule ext) (simp add: ruleFindings_def)

lemma ruleEffects_rules_irrelevant [simp]:
  "ruleEffects V (m\<lparr>scannerRules := rules\<rparr>) = ruleEffects V m"
  by (rule ext) (simp add: ruleEffects_def)

subsection \<open>Rules whose query fails\<close>

lemma evalRule_queryError:
  assumes "queryError V m rule = Some e"
  shows "evalRule V m rule s =
     (normalizePriority V rule,
      s\<lparr>effects := effects s @ [ConsoleError (''A tree-sitter query error occurred: '' @ e)]\<rparr>)"
  using assms
  by (auto simp: queryError_def evalRule_def tryBlock_def Let_def split: sum.splits)

lemma ruleFindings_queryError:
  "queryError V m rule \<noteq> None \<Longrightarrow> ruleFindings V m rule = []"
  by (auto simp: ruleFindings_def emptyRun_def evalRule_queryError)

lemma concat_map_filter_nonempty:
  "(\<And>x. x \<in> set xs \<Longrightarrow> \<not> P x \<Longrightarrow> f x = []) \<Longrightarrow> concat (map f (filter P xs)) = concat (map f xs)"
  by (induction xs) auto

lemma returned_commonScan_filter:
  "returned (commonScan V m) =
   returned (commonScan V (m\<lparr>scannerRules := filter (\<lambda>rule. queryError V m rule = None) (scannerRules m)\<rparr>))"
  by (simp add: commonScan_eq concat_map_filter_nonempty ruleFindings_queryError)

lemma returned_commonScan_all_fail:
  "\<forall>rule\<in>set (scannerRules m). queryError V m rule \<noteq> None \<Longrightarrow> returned (commonScan V m) = []"
  by (simp add: commonScan_eq ruleFindings_queryError)

subsection \<open>Rules whose nodes are captured\<close>

lemma effectiveContext_normalizePriority [simp]:
  "effectiveContext (normalizePriority V rule) = effectiveContext rule"
  by (simp add: effectiveContext_def normalizePriority_def)

lemma validated_takeWhile:
  "snd (validated f ns) =
     concat (map (\<lambda>n. results (f n)) (takeWhile (\<lambda>n. returns (f n)) ns))"
  by (induction ns) (simp_all add: returns_def results_def split: sum.split)

lemma tryBlock_captured:
  "tryBlock m (normalizePriority V rule) s =
     (case captured V m rule of
        Inl e \<Rightarrow> (Some e, s)
      | Inr nodes \<Rightarrow> dispatchNodes (normalizePriority V rule) nodes s)"
  by (simp add: tryBlock_def captured_def split: sum.split)

lemma ruleFindings_tryBlock:
  "ruleFindings V m rule = scanResultList (snd (tryBlock m (normalizePriority V rule) emptyRun))"
  by (simp add: ruleFindings_def evalRule_def Let_def split: option.split)

lemma ruleEffects_tryBlock:
  "filter isMeasureNodes (ruleEffects V m rule) =
   filter isMeasureNodes (effects (snd (tryBlock m (normalizePriority V rule) emptyRun)))"
  by (simp add: ruleEffects_def evalRule_def Let_def split: option.split)

lemma dispatchNodes_measure_effects:
  "filter isMeasureNodes (effects (snd (dispatchNodes rule nodes emptyRun))) =
     (if includes' (effectiveContext rule) ''measure''
      then [MeasureNodes (ScanRuleFields.truncate rule) nodes] else [])"
  by (cases "includes' (effectiveContext rule) ''measure''";
      cases "measureNodes rule (ScanRuleFields.truncate rule) nodes";
      cases "validateNodes rule (ScanRuleFields.truncate rule) nodes")
     (simp_all add: dispatchNodes_def emptyRun_def Let_def forEach_validateNode_validated)

lemma measureCall_ruleEffects:
  "filter isMeasureNodes (ruleEffects V m rule) = measureCall V m rule"
  by (cases "captured V m rule")
     (simp_all add: ruleEffects_tryBlock tryBlock_captured measureCall_def
        dispatchNodes_measure_effects)

lemma filter_concat_map:
  "filter P (concat (map f xs)) = concat (map (\<lambda>x. filter P (f x)) xs)"
  by (induction xs) simp_all

lemma ruleFindings_captured_Inl:
  "captured V m rule = Inl e \<Longrightarrow> ruleFindings V m rule = []"
  by (simp add: ruleFindings_tryBlock tryBlock_captured)

lemma ruleFindings_captured_Inr:
  "captured V m rule = Inr nodes \<Longrightarrow>
   ruleFindings V m rule =
     scanResultList (snd (dispatchNodes (normalizePriority V rule) nodes emptyRun))"
  by (simp add: ruleFindings_tryBlock tryBlock_captured)

lemma dispatchNodes_findings:
  "scanResultList (snd (dispatchNodes rule nodes emptyRun)) =
     (if includes' (effectiveContext rule) ''measure''
         \<and> measureNodes rule (ScanRuleFields.truncate rule) nodes \<noteq> None
      then []
      else case validateNodes rule (ScanRuleFields.truncate rule) nodes of
             Inl e \<Rightarrow> []
           | Inr rs \<Rightarrow> rs @ snd (validated (validateNode rule (ScanRuleFields.truncate rule)) nodes))"
  by (cases "includes' (effectiveContext rule) ''measure''";
      cases "measureNodes rule (ScanRuleFields.truncate rule) nodes";
      cases "validateNodes rule (ScanRuleFields.truncate rule) nodes")
     (simp_all add: dispatchNodes_def emptyRun_def Let_def forEach_validateNode_validated)

lemma ruleFindings_appendedBy:
  "ruleFindings V m rule = appendedBy V m rule"
proof (cases "captured V m rule")
  case (Inl e)
  then show ?thesis
    by (simp add: ruleFindings_captured_Inl appendedBy_def)
next
  case (Inr nodes)
  then show ?thesis
    by (auto simp: ruleFindings_captured_Inr dispatchNodes_findings appendedBy_def Let_def
        validated_takeWhile split: sum.split)
qed

lemma takeWhile_list_all:
  "list_all P xs \<Longrightarrow> takeWhile P xs = xs"
  by (induction xs) simp_all

lemma appendedBy_successful:
  assumes "successful V m rule = Some nodes"
  shows "appendedBy V m rule = contribution V m rule"
proof (cases "captured V m rule")
  case (Inl e)
  with assms show ?thesis by (simp add: successful_def Let_def)
next
  case (Inr ns)
  let ?rule = "normalizePriority V rule"
  let ?fields = "ScanRuleFields.truncate ?rule"
  from assms Inr have ns: "ns = nodes"
    and quiet: "\<not> (includes' (effectiveContext ?rule) ''measure''
                   \<and> measureNodes ?rule ?fields nodes \<noteq> None)"
    and v: "returns (validateNodes ?rule ?fields nodes)"
    and vs: "list_all (\<lambda>n. returns (validateNode ?rule ?fields n)) nodes"
    by (auto simp: successful_def Let_def split: if_splits)
  from v obtain rs where rs: "validateNodes ?rule ?fields nodes = Inr rs"
    by (cases "validateNodes ?rule ?fields nodes") (simp_all add: returns_def)
  have "appendedBy V m rule =
          rs @ concat (map (\<lambda>n. results (validateNode ?rule ?fields n)) nodes)"
    using quiet Inr ns by (auto simp: appendedBy_def Let_def rs takeWhile_list_all[OF vs])
  also have "\<dots> = contribution V m rule"
    using assms by (simp add: contribution_def Let_def rs results_def)
  finally show ?thesis .
qed

subsection \<open>dump and DumpResult\<close>


lemma dump_default_query_rejected:
  "dump demoManager [] = Inl ''Error: Query error of type TSQueryErrorSyntax at position 19''"
  by (simp add: demo_defs dump_def executedQuery_def)

lemma new_DumpResult_fragment:
  assumes "startIndex n \<le> endIndex n" and "endIndex n \<le> length source"
  shows "SourceFragment (new_DumpResult n source) =
           take (endIndex n - startIndex n) (drop (startIndex n) source)"
    and "length (SourceFragment (new_DumpResult n source)) = endIndex n - startIndex n"
  using assms by (auto simp: new_DumpResult_def substring_def Let_def min_def max_def)

section \<open>The claims\<close>

text \<open>
  C1. A query that fails to compile or execute does not end the run. The turn of the
  loop for such a rule leaves the result list as it was, writes the error to the console
  and hands the next rule the same run; so \<^verbatim>\<open>scan()\<close> and \<^verbatim>\<open>measure()\<close> return what they
  would return without the rules whose query fails, the empty list when every query
  fails, and the empty list for no rules at all.
\<close>

theorem query_errors_isolated:
  "(\<forall>e s. queryError VIOLATION m rule = Some e \<longrightarrow>
      evalRule VIOLATION m rule s =
        (normalizePriority VIOLATION rule,
         s\<lparr>effects := effects s @
            [ConsoleError (''A tree-sitter query error occurred: '' @ e)]\<rparr>))
   \<and> returned (scan VIOLATION m) =
       returned (scan VIOLATION
         (m\<lparr>scannerRules := filter (\<lambda>rule. queryError VIOLATION m rule = None) (scannerRules m)\<rparr>))
   \<and> returned (measure_op VIOLATION m) =
       returned (measure_op VIOLATION
         (m\<lparr>scannerRules := filter (\<lambda>rule. queryError VIOLATION m rule = None) (scannerRules m)\<rparr>))
   \<and> ((\<forall>rule\<in>set (scannerRules m). queryError VIOLATION m rule \<noteq> None) \<longrightarrow>
        returned (scan VIOLATION m) = [] \<and> returned (measure_op VIOLATION m) = [])
   \<and> returned (scan VIOLATION (m\<lparr>scannerRules := []\<rparr>)) = []
   \<and> returned (measure_op VIOLATION (m\<lparr>scannerRules := []\<rparr>)) = []"
proof -
  have one: "\<forall>e s. queryError VIOLATION m rule = Some e \<longrightarrow>
      evalRule VIOLATION m rule s =
        (normalizePriority VIOLATION rule,
         s\<lparr>effects := effects s @
            [ConsoleError (''A tree-sitter query error occurred: '' @ e)]\<rparr>)"
    by (simp add: evalRule_queryError)
  have none: "returned (commonScan VIOLATION (m\<lparr>scannerRules := []\<rparr>)) = []"
    by (simp add: commonScan_eq)
  show ?thesis
    unfolding scan_def measure_op_def
    using one none returned_commonScan_filter[of VIOLATION m]
      returned_commonScan_all_fail[of m VIOLATION]
    by blast
qed

theorem query_errors_isolated_witness:
  "queryError 3 demoManager brokenRule
     = Some ''Error: Query error of type TSQueryErrorSyntax at position 20''
   \<and> evalRule 3 demoManager brokenRule \<lparr>scanResultList = [''kept''], effects = []\<rparr> =
       (brokenRule\<lparr>Priority := 3\<rparr>,
        \<lparr>scanResultList = [''kept''],
         effects = [ConsoleError
           ''A tree-sitter query error occurred: Error: Query error of type TSQueryErrorSyntax at position 20'']\<rparr>)
   \<and> list_all (\<lambda>rule. queryError 3 brokenManager rule \<noteq> None) (scannerRules brokenManager)
   \<and> returned (scan 3 brokenManager) = []
   \<and> returned (measure_op 3 brokenManager) = []"
proof -
  have q: "queryError 3 demoManager brokenRule
     = Some ''Error: Query error of type TSQueryErrorSyntax at position 20''"
    by (simp add: queryError_def demo_defs engine_defs)
  have q': "queryError 3 brokenManager brokenRule \<noteq> None"
    by (simp add: queryError_def demo_defs engine_defs)
  have allfail: "\<forall>rule\<in>set (scannerRules brokenManager). queryError 3 brokenManager rule \<noteq> None"
    using q' by (simp add: brokenManager_def)
  have n: "normalizePriority 3 brokenRule = brokenRule\<lparr>Priority := 3\<rparr>"
    by (simp add: normalizePriority_def brokenRule_def)
  note t = query_errors_isolated[of 3 demoManager brokenRule]
  note u = query_errors_isolated[of 3 brokenManager brokenRule]
  from t q have "evalRule 3 demoManager brokenRule \<lparr>scanResultList = [''kept''], effects = []\<rparr> =
       (normalizePriority 3 brokenRule,
        \<lparr>scanResultList = [''kept''], effects = []\<rparr>\<lparr>effects := effects \<lparr>scanResultList = [''kept''], effects = []\<rparr> @
           [ConsoleError (''A tree-sitter query error occurred: '' @ ''Error: Query error of type TSQueryErrorSyntax at position 20'')]\<rparr>)"
    by blast
  then have a: "evalRule 3 demoManager brokenRule \<lparr>scanResultList = [''kept''], effects = []\<rparr> =
       (brokenRule\<lparr>Priority := 3\<rparr>,
        \<lparr>scanResultList = [''kept''],
         effects = [ConsoleError
           ''A tree-sitter query error occurred: Error: Query error of type TSQueryErrorSyntax at position 20'']\<rparr>)"
    by (simp add: n)
  from u allfail have b: "returned (scan 3 brokenManager) = [] \<and> returned (measure_op 3 brokenManager) = []"
    by blast
  from q a allfail b show ?thesis by (simp add: list_all_iff)
qed


text \<open>
  C3, as the code has it. In \<^verbatim>\<open>scan()\<close> exactly as in \<^verbatim>\<open>measure()\<close>, the calls of
  \<^verbatim>\<open>measureNodes\<close> are, in rule order, one call for each rule whose nodes were captured
  and whose context (scan when unset) includes measure, with the captured nodes, and no
  call for any other rule.
\<close>

theorem measureNodes_by_context_only:
  "filter isMeasureNodes (sideEffects (scan VIOLATION m)) =
     concat (map (measureCall VIOLATION m) (scannerRules m))
   \<and> filter isMeasureNodes (sideEffects (measure_op VIOLATION m)) =
     concat (map (measureCall VIOLATION m) (scannerRules m))"
  by (simp add: scan_def measure_op_def commonScan_eq filter_concat_map measureCall_ruleEffects)

text \<open>
  The operation requested plays no part: \<^verbatim>\<open>scan()\<close> on the example engine calls
  \<^verbatim>\<open>measureNodes\<close> of the measurement rule.
\<close>

theorem measureNodes_in_scan_counterexample:
  "MeasureNodes \<lparr>Context = Some ''measure'', Query = ''(variable_declarator (identifier) @exp)'',
       RegEx = None, Priority = 1\<rparr> [nodeLongName]
     \<in> set (sideEffects (scan 3 demoManager))"
  by (simp add: demo_defs engine_defs)

text \<open>
  C4, as the code has it. The list that \<^verbatim>\<open>scan()\<close> and \<^verbatim>\<open>measure()\<close> return is the
  concatenation, in rule order, of what each rule had appended when its try block ended:
  for a successful rule the results of \<^verbatim>\<open>validateNodes\<close> followed by the results of
  \<^verbatim>\<open>validateNode\<close> for each node in capture order; nothing for a rule whose pre-filter,
  query, \<^verbatim>\<open>measureNodes\<close> or \<^verbatim>\<open>validateNodes\<close> throws; and for a rule whose
  \<^verbatim>\<open>validateNode\<close> throws on some node, the results of \<^verbatim>\<open>validateNodes\<close> followed by
  the results of \<^verbatim>\<open>validateNode\<close> for the nodes before that one. Nothing is removed,
  merged or reordered.
\<close>

theorem findings_in_rule_order:
  "returned (scan VIOLATION m) = concat (map (appendedBy VIOLATION m) (scannerRules m))
   \<and> returned (measure_op VIOLATION m) = concat (map (appendedBy VIOLATION m) (scannerRules m))
   \<and> (\<forall>nodes. successful VIOLATION m rule = Some nodes \<longrightarrow>
        appendedBy VIOLATION m rule =
          results (validateNodes (normalizePriority VIOLATION rule)
                     (ScanRuleFields.truncate (normalizePriority VIOLATION rule)) nodes)
            @ concat (map (\<lambda>n. results (validateNode (normalizePriority VIOLATION rule)
                                   (ScanRuleFields.truncate (normalizePriority VIOLATION rule)) n))
                        nodes))"
proof -
  have a: "returned (commonScan VIOLATION m) =
             concat (map (appendedBy VIOLATION m) (scannerRules m))"
    by (simp add: commonScan_eq ruleFindings_appendedBy[abs_def])
  have b: "appendedBy VIOLATION m rule =
          results (validateNodes (normalizePriority VIOLATION rule)
                     (ScanRuleFields.truncate (normalizePriority VIOLATION rule)) nodes)
            @ concat (map (\<lambda>n. results (validateNode (normalizePriority VIOLATION rule)
                                   (ScanRuleFields.truncate (normalizePriority VIOLATION rule)) n))
                        nodes)"
    if "successful VIOLATION m rule = Some nodes" for nodes
    using appendedBy_successful[OF that] that by (simp add: contribution_def Let_def)
  from a b show ?thesis
    by (simp add: scan_def measure_op_def)
qed

theorem findings_in_rule_order_witness:
  "successful 3 demoManager lengthRule = Some [nodeX, nodeLongName]
   \<and> appendedBy 3 demoManager lengthRule = [''total'', ''x'']
   \<and> returned (scan 3 demoManager) = [''total'', ''x'', ''longName'']
   \<and> returned (measure_op 3 demoManager) = [''total'', ''x'', ''longName'']"
proof -
  have s: "successful 3 demoManager lengthRule = Some [nodeX, nodeLongName]"
    by (simp add: successful_def captured_def returns_def demo_defs engine_defs)
  note t = findings_in_rule_order[of 3 demoManager lengthRule]
  from t s have "appendedBy 3 demoManager lengthRule =
      results (validateNodes (normalizePriority 3 lengthRule)
                 (ScanRuleFields.truncate (normalizePriority 3 lengthRule)) [nodeX, nodeLongName])
        @ concat (map (\<lambda>n. results (validateNode (normalizePriority 3 lengthRule)
                               (ScanRuleFields.truncate (normalizePriority 3 lengthRule)) n))
                    [nodeX, nodeLongName])"
    by blast
  then have a: "appendedBy 3 demoManager lengthRule = [''total'', ''x'']"
    by (simp add: results_def normalizePriority_def lengthRule_def nodeX_def nodeLongName_def)
  have c: "concat (map (appendedBy 3 demoManager) (scannerRules demoManager)) =
           [''total'', ''x'', ''longName'']"
    by (simp add: appendedBy_def captured_def results_def returns_def demo_defs engine_defs)
  from t c have b: "returned (scan 3 demoManager) = [''total'', ''x'', ''longName'']"
    and d: "returned (measure_op 3 demoManager) = [''total'', ''x'', ''longName'']"
    by simp_all
  from s a b d show ?thesis by simp
qed

text \<open>
  A rule whose \<^verbatim>\<open>validateNode\<close> throws on the second node is not successful, and what
  it had appended before stays in the list.
\<close>

theorem partial_findings_counterexample:
  "successful 3 throwingManager throwingRule = None
   \<and> returned (scan 3 throwingManager) = [''total'', ''x'', ''total'', ''x'']
   \<and> concat (map (contribution 3 throwingManager) (scannerRules throwingManager)) = [''total'', ''x'']
   \<and> returned (scan 3 throwingManager) \<noteq>
       concat (map (contribution 3 throwingManager) (scannerRules throwingManager))"
proof -
  have a: "successful 3 throwingManager throwingRule = None"
    by (simp add: successful_def captured_def returns_def demo_defs engine_defs)
  have b: "returned (scan 3 throwingManager) = [''total'', ''x'', ''total'', ''x'']"
    by (simp add: demo_defs engine_defs)
  have c: "concat (map (contribution 3 throwingManager) (scannerRules throwingManager)) =
           [''total'', ''x'']"
    by (simp add: contribution_def successful_def captured_def returns_def results_def
        demo_defs engine_defs)
  have "returned (scan 3 throwingManager) \<noteq>
       concat (map (contribution 3 throwingManager) (scannerRules throwingManager))"
    unfolding b c by simp
  with a b c show ?thesis by blast
qed

text \<open>
  C5, as the code has it. \<^verbatim>\<open>scan()\<close> and \<^verbatim>\<open>measure()\<close> leave the tree, the language, the
  source text and every field of every rule but \<^verbatim>\<open>Priority\<close> as they were; they overwrite
  the \<^verbatim>\<open>Priority\<close> of each rule with the smaller of it and \<^verbatim>\<open>ResultType.VIOLATION\<close>. A
  second run changes nothing more, and an engine whose rules are all within the maximum is
  left as it was.
\<close>

theorem only_priority_rewritten:
  "engine (scan VIOLATION m) =
     m\<lparr>scannerRules :=
        map (\<lambda>rule. rule\<lparr>Priority := min (Priority rule) VIOLATION\<rparr>) (scannerRules m)\<rparr>
   \<and> engine (measure_op VIOLATION m) = engine (scan VIOLATION m)
   \<and> engine (scan VIOLATION (engine (scan VIOLATION m))) = engine (scan VIOLATION m)
   \<and> ((\<forall>rule\<in>set (scannerRules m). Priority rule \<le> VIOLATION) \<longrightarrow>
        engine (scan VIOLATION m) = m)"
proof -
  have n: "normalizePriority VIOLATION = (\<lambda>rule :: 'a ScanRule. rule\<lparr>Priority := min (Priority rule) VIOLATION\<rparr>)"
    by (rule ext) (simp add: normalizePriority_def min_def)
  have a: "engine (scan VIOLATION m) =
     m\<lparr>scannerRules :=
        map (\<lambda>rule. rule\<lparr>Priority := min (Priority rule) VIOLATION\<rparr>) (scannerRules m)\<rparr>"
    by (simp add: scan_def commonScan_eq n)
  have b: "engine (measure_op VIOLATION m) = engine (scan VIOLATION m)"
    by (simp add: scan_def measure_op_def)
  have c: "engine (scan VIOLATION (engine (scan VIOLATION m))) = engine (scan VIOLATION m)"
    by (simp add: scan_def commonScan_eq n comp_def)
  have d: "engine (scan VIOLATION m) = m"
    if "\<forall>rule\<in>set (scannerRules m). Priority rule \<le> VIOLATION"
  proof -
    have "map (\<lambda>rule. rule\<lparr>Priority := min (Priority rule) VIOLATION\<rparr>) (scannerRules m) =
          map (\<lambda>rule. rule) (scannerRules m)"
      using that by (intro map_cong refl) (simp add: min_def)
    then show ?thesis by (simp add: a)
  qed
  from a b c d show ?thesis by blast
qed

theorem only_priority_rewritten_witness:
  "list_all (\<lambda>rule. Priority rule \<le> 3) (scannerRules (demoManager\<lparr>scannerRules := [lengthRule, measureRule]\<rparr>))
   \<and> engine (scan 3 (demoManager\<lparr>scannerRules := [lengthRule, measureRule]\<rparr>)) =
       demoManager\<lparr>scannerRules := [lengthRule, measureRule]\<rparr>"
proof -
  have h: "\<forall>rule\<in>set (scannerRules (demoManager\<lparr>scannerRules := [lengthRule, measureRule]\<rparr>)).
             Priority rule \<le> 3"
    by (simp add: lengthRule_def measureRule_def)
  from only_priority_rewritten[of 3 "demoManager\<lparr>scannerRules := [lengthRule, measureRule]\<rparr>"] h
  have "engine (scan 3 (demoManager\<lparr>scannerRules := [lengthRule, measureRule]\<rparr>)) =
       demoManager\<lparr>scannerRules := [lengthRule, measureRule]\<rparr>"
    by blast
  with h show ?thesis by (simp add: list_all_iff)
qed

text \<open>
  The rule of the example engine that declares 16452 is left with 3 by a scan.
\<close>

theorem rules_mutated_counterexample:
  "map Priority (scannerRules demoManager) = [16452, 2, 1]
   \<and> map Priority (scannerRules (engine (scan 3 demoManager))) = [3, 2, 1]
   \<and> engine (scan 3 demoManager) \<noteq> demoManager"
proof -
  have a: "map Priority (scannerRules demoManager) = [16452, 2, 1]"
    by (simp add: demo_defs)
  have b: "map Priority (scannerRules (engine (scan 3 demoManager))) = [3, 2, 1]"
    by (simp add: demo_defs engine_defs)
  from a b have "engine (scan 3 demoManager) \<noteq> demoManager"
    by auto
  with a b show ?thesis by blast
qed



text \<open>
  C7, as the code has it. The query text composed by \<^verbatim>\<open>ScanManager.ts\<close> is the query
  of the rule with the match constraint on \<^verbatim>\<open>@exp\<close> appended when the regular expression
  is present and not the empty string, and the query unchanged when it is absent or
  empty. The older \<^verbatim>\<open>ScanManager.js\<close> appends the constraint for every regular
  expression that is present. Neither looks at the syntax of the pattern.
\<close>

theorem query_composition:
  "queryText rule = (if RegEx rule = Some [] then Query rule else composedQuery_spec rule)
   \<and> queryText_js rule = composedQuery_spec rule"
  by (simp add: queryText_def queryText_js_def composedQuery_spec_def split: option.split)

text \<open>
  A rule whose regular expression is the empty string gets no constraint.
\<close>

theorem empty_regex_counterexample:
  \<open>queryText emptyRegExRule = ''(variable_declarator (identifier) @exp)''
   \<and> composedQuery_spec emptyRegExRule = ''(variable_declarator (identifier) @exp)(#match? @exp "")''
   \<and> queryText emptyRegExRule \<noteq> composedQuery_spec emptyRegExRule\<close>
  by (simp add: queryText_def composedQuery_spec_def emptyRegExRule_def)

text \<open>
  C8. The scope of a rule is its pre-filter applied to the root of the tree, the root
  itself when the rule supplies none. Once the scope is there, the try block compiles and
  executes the composed query over it and goes on with the nodes of the captures in the
  order in which the query engine returned them.
\<close>

theorem query_over_prefiltered_root:
  "(preFilterOverride rule = None \<longrightarrow>
      preFilter rule (rootNode (treeSitterNodeTree m)) = Inr (rootNode (treeSitterNodeTree m)))
   \<and> (\<forall>f. preFilterOverride rule = Some f \<longrightarrow>
      preFilter rule (rootNode (treeSitterNodeTree m)) =
        f (ScanRuleFields.truncate rule) (rootNode (treeSitterNodeTree m)))
   \<and> (\<forall>filteredRoot captures.
        preFilter rule (rootNode (treeSitterNodeTree m)) = Inr filteredRoot
        \<and> treeSitterLanguage m (queryText rule) filteredRoot = Inr captures \<longrightarrow>
        tryBlock m rule s = dispatchNodes rule (map node captures) s)"
  by (simp add: preFilter_def tryBlock_def)

theorem query_over_prefiltered_root_witness:
  "preFilterOverride lengthRule = None
   \<and> preFilter lengthRule (rootNode (treeSitterNodeTree demoManager)) = Inr demoRoot
   \<and> treeSitterLanguage demoManager (queryText lengthRule) demoRoot
       = Inr [\<lparr>name = ''exp'', node = nodeX\<rparr>, \<lparr>name = ''exp'', node = nodeLongName\<rparr>]
   \<and> tryBlock demoManager lengthRule emptyRun = dispatchNodes lengthRule [nodeX, nodeLongName] emptyRun
   \<and> preFilterOverride measureRule = Some (\<lambda>this root. Inr demoTail)
   \<and> preFilter measureRule (rootNode (treeSitterNodeTree demoManager)) = Inr demoTail
   \<and> treeSitterLanguage demoManager (queryText measureRule) demoTail
       = Inr [\<lparr>name = ''exp'', node = nodeLongName\<rparr>]
   \<and> tryBlock demoManager measureRule emptyRun = dispatchNodes measureRule [nodeLongName] emptyRun"
proof -
  have a: "preFilterOverride lengthRule = None" by (simp add: lengthRule_def)
  have r: "rootNode (treeSitterNodeTree demoManager) = demoRoot" by (simp add: demoManager_def)
  have c: "treeSitterLanguage demoManager (queryText lengthRule) demoRoot
       = Inr [\<lparr>name = ''exp'', node = nodeX\<rparr>, \<lparr>name = ''exp'', node = nodeLongName\<rparr>]"
    by (simp add: demoManager_def demoLanguage_def queryText_def lengthRule_def demoRoot_def
        nodeX_def nodeLongName_def)
  have o: "preFilterOverride measureRule = Some (\<lambda>this root. Inr demoTail)"
    by (simp add: measureRule_def)
  have g: "treeSitterLanguage demoManager (queryText measureRule) demoTail
       = Inr [\<lparr>name = ''exp'', node = nodeLongName\<rparr>]"
    by (simp add: demoManager_def demoLanguage_def queryText_def measureRule_def demoTail_def
        nodeX_def nodeLongName_def)
  note t = query_over_prefiltered_root[of lengthRule demoManager emptyRun]
  note u = query_over_prefiltered_root[of measureRule demoManager emptyRun]
  from t a have b: "preFilter lengthRule (rootNode (treeSitterNodeTree demoManager)) = Inr demoRoot"
    by (simp add: r)
  from u o have f: "preFilter measureRule (rootNode (treeSitterNodeTree demoManager)) = Inr demoTail"
    by simp
  from t b c have d: "tryBlock demoManager lengthRule emptyRun =
      dispatchNodes lengthRule (map node [\<lparr>name = ''exp'', node = nodeX\<rparr>, \<lparr>name = ''exp'', node = nodeLongName\<rparr>]) emptyRun"
    by blast
  from u f g have e: "tryBlock demoManager measureRule emptyRun =
      dispatchNodes measureRule (map node [\<lparr>name = ''exp'', node = nodeLongName\<rparr>]) emptyRun"
    by blast
  from a b c d e f g o show ?thesis by simp
qed

text \<open>
  C9. A second \<^verbatim>\<open>scan()\<close> on the engine that the first one leaves returns the same list:
  the only change of the first scan is the priority of the rules, which the second scan
  would set to the same value before anything reads it.
\<close>

theorem repeated_scan_same:
  "returned (scan VIOLATION (engine (scan VIOLATION m))) = returned (scan VIOLATION m)"
proof -
  have idem: "normalizePriority VIOLATION (normalizePriority VIOLATION rule) = normalizePriority VIOLATION rule"
    for rule :: "'a ScanRule"
    by (simp add: normalizePriority_def)
  have "ruleFindings VIOLATION m (normalizePriority VIOLATION rule) = ruleFindings VIOLATION m rule"
    for rule
    by (simp add: ruleFindings_def evalRule_def idem)
  then show ?thesis
    by (simp add: scan_def commonScan_eq comp_def)
qed

text \<open>
  C10. \<^verbatim>\<open>scan()\<close> and \<^verbatim>\<open>measure()\<close> both return what \<^verbatim>\<open>commonScan()\<close> returns and pass it
  no argument, so on the same engine they return the same list, leave the engine in the
  same condition and have the same side effects.
\<close>

theorem scan_measure_same: "scan VIOLATION m = measure_op VIOLATION m"
  by (simp add: scan_def measure_op_def)

end
